theory Spec2Isabelle
  imports Complex_Main
begin

section \<open>Knowledge-graph construction engine (knowledge\_graph.py)\<close>

text \<open>
  A shallow embedding of the class \<open>IssueKnowledgeGraph\<close> of \<^verbatim>\<open>knowledge_graph.py\<close>:
  rule-based section extraction, tree construction, explicit and implicit connection
  discovery and the build loop. Python strings are character lists, Python exceptions
  are values of the type \<open>error\<close>, the two output channels of the class (the
  \<^verbatim>\<open>GraphLogger\<close> and \<^verbatim>\<open>print\<close>) are a list of events returned next to the result.
\<close>

subsection \<open>Python string primitives\<close>

text \<open>
  \<^verbatim>\<open>str.isspace\<close> on the ASCII range: tab, line feed, vertical tab, form feed, carriage
  return, the four separators \<^verbatim>\<open>0x1c..0x1f\<close> and space. Characters are bytes here, so the
  Unicode spaces beyond ASCII are not whitespace in the model.
\<close>

definition isspace :: "char \<Rightarrow> bool" where
  "isspace c = (c \<in> set [CHR 0x09, CHR 0x0A, CHR 0x0B, CHR 0x0C, CHR 0x0D,
                          CHR 0x1C, CHR 0x1D, CHR 0x1E, CHR 0x1F, CHR 0x20])"

text \<open>\<^verbatim>\<open>s.strip()\<close>: whitespace removed at both ends.\<close>

definition strip :: "string \<Rightarrow> string" where
  "strip s = rev (dropWhile isspace (rev (dropWhile isspace s)))"

text \<open>\<^verbatim>\<open>s.startswith(p)\<close>.\<close>

definition startswith :: "string \<Rightarrow> string \<Rightarrow> bool" where
  "startswith s p = (take (length p) s = p)"

text \<open>
  \<^verbatim>\<open>s.split(c)\<close> for a one-character separator: the pieces between the separators, empty
  pieces kept; the result is never empty (\<^verbatim>\<open>''.split('_') == ['']\<close>).
\<close>

fun split_on :: "char \<Rightarrow> string \<Rightarrow> string list" where
  "split_on c [] = [[]]"
| "split_on c (x # xs) =
     (if x = c then [] # split_on c xs
      else (case split_on c xs of [] \<Rightarrow> [[x]] | w # ws \<Rightarrow> (x # w) # ws))"

text \<open>\<^verbatim>\<open>sep.join(xs)\<close>.\<close>

fun join :: "string \<Rightarrow> string list \<Rightarrow> string" where
  "join sep [] = []"
| "join sep [x] = x"
| "join sep (x # y # ys) = x @ sep @ join sep (y # ys)"

text \<open>\<^verbatim>\<open>str(n)\<close> for a natural number and for an integer: decimal digits.\<close>

fun str_nat :: "nat \<Rightarrow> string" where
  "str_nat n = (if n < 10 then [char_of (48 + n)]
                else str_nat (n div 10) @ [char_of (48 + n mod 10)])"

declare str_nat.simps [simp del]

definition str_int :: "int \<Rightarrow> string" where
  "str_int i = (if i < 0 then CHR ''-'' # str_nat (nat (- i)) else str_nat (nat i))"

text \<open>\<^verbatim>\<open>s.lower()\<close> on the ASCII letters.\<close>

definition lower_char :: "char \<Rightarrow> char" where
  "lower_char c = (let n = (of_char c :: nat) in if 65 \<le> n \<and> n \<le> 90 then char_of (n + 32) else c)"

definition lower :: "string \<Rightarrow> string" where
  "lower s = map lower_char s"

subsection \<open>Code-section extraction\<close>

text \<open>
  \<^verbatim>\<open>_extract_code_sections\<close> scans the lines of the text with three variables:
  \<^verbatim>\<open>code_sections\<close>, \<^verbatim>\<open>in_code_block\<close> and \<^verbatim>\<open>current_block\<close>. The body of its
  \<^verbatim>\<open>for\<close> loop is \<open>scan_line\<close>; the three components of the state are in that order.
\<close>

definition code_block_markers :: "string list" where
  "code_block_markers = [''```'', ''~~~'', ''    '']"

type_synonym scan_state = "string list \<times> bool \<times> string list"

definition scan_line :: "string \<Rightarrow> scan_state \<Rightarrow> scan_state" where
  "scan_line line st =
     (case st of (code_sections, in_code_block, current_block) \<Rightarrow>
        if list_ex (\<lambda>marker. startswith (strip line) marker) (take 2 code_block_markers)
        then
          (if in_code_block \<and> current_block \<noteq> []
           then (code_sections @ [join ''\<newline>'' current_block], \<not> in_code_block, [])
           else (code_sections, \<not> in_code_block, current_block))
        else
          (case
             (if \<not> in_code_block \<and> startswith line ''    ''
              then (code_sections, True, current_block)
              else if in_code_block \<and> \<not> startswith line ''    '' \<and> strip line \<noteq> []
              then (if current_block \<noteq> []
                    then (code_sections @ [join ''\<newline>'' current_block], False, [])
                    else (code_sections, False, current_block))
              else (code_sections, in_code_block, current_block))
           of (code_sections', in_code_block', current_block') \<Rightarrow>
             if in_code_block'
                \<and> \<not> list_ex (\<lambda>marker. startswith (strip line) marker) code_block_markers
             then (code_sections', in_code_block', current_block' @ [strip line])
             else (code_sections', in_code_block', current_block')))"

definition extract_code_sections :: "string \<Rightarrow> string list" where
  "extract_code_sections text =
     (case foldl (\<lambda>st line. scan_line line st) ([], False, []) (split_on CHR ''\<newline>'' text) of
        (code_sections, in_code_block, current_block) \<Rightarrow>
          if current_block \<noteq> [] then code_sections @ [join ''\<newline>'' current_block]
          else code_sections)"

subsection \<open>Python values, tickets and errors\<close>

text \<open>
  A ticket is a Python dictionary. The scalar values a field can hold are modelled as
  \<^verbatim>\<open>None\<close>, a string or an integer, with Python's truth value and \<^verbatim>\<open>str()\<close>. The key
  \<^verbatim>\<open>links\<close>, the only one the code iterates, is kept apart from the scalar fields: it
  is absent (\<open>None\<close>) or a list of dictionaries.
\<close>

datatype pyval = PNone | PStr string | PInt int

fun truthy :: "pyval \<Rightarrow> bool" where
  "truthy PNone = False"
| "truthy (PStr s) = (s \<noteq> [])"
| "truthy (PInt i) = (i \<noteq> 0)"

fun py_str :: "pyval \<Rightarrow> string" where
  "py_str PNone = ''None''"
| "py_str (PStr s) = s"
| "py_str (PInt i) = str_int i"

type_synonym pydict = "string \<Rightarrow> pyval option"

record Ticket =
  ticket_fields :: pydict
  links :: "pydict list option"

text \<open>\<^verbatim>\<open>d.get(k)\<close>, \<^verbatim>\<open>d.get(k, default)\<close> and \<^verbatim>\<open>a or b\<close>.\<close>

definition py_get :: "pydict \<Rightarrow> string \<Rightarrow> pyval" where
  "py_get d k = (case d k of None \<Rightarrow> PNone | Some v \<Rightarrow> v)"

definition py_get_default :: "pydict \<Rightarrow> string \<Rightarrow> pyval \<Rightarrow> pyval" where
  "py_get_default d k dflt = (case d k of None \<Rightarrow> dflt | Some v \<Rightarrow> v)"

definition py_or :: "pyval \<Rightarrow> pyval \<Rightarrow> pyval" where
  "py_or a b = (if truthy a then a else b)"

text \<open>
  The exceptions that occur: \<^verbatim>\<open>ValueError\<close> with its message, \<^verbatim>\<open>KeyError\<close> with the
  missing key, \<^verbatim>\<open>AttributeError\<close>, and whatever the embedding provider raises.
\<close>

datatype error =
    ValueError string
  | KeyError string
  | AttributeError string
  | EmbeddingError string

subsection \<open>Data classes\<close>

record TicketNode =
  node_id :: string
  node_section :: string
  content :: string

record TicketTree =
  tree_id :: string
  nodes :: "TicketNode list"
  edges :: "(string \<times> string \<times> string) list"

subsection \<open>Rule-based section extraction\<close>

text \<open>
  \<^verbatim>\<open>parse_ticket_with_rules\<close>. The \<^verbatim>\<open>isinstance(ticket, dict)\<close> test is the type of the
  argument here; the test for the key \<^verbatim>\<open>id\<close> is on the presence of the key only.
\<close>

definition parse_ticket_with_rules :: "Ticket \<Rightarrow> error + TicketNode list" where
  "parse_ticket_with_rules ticket =
     (case ticket_fields ticket ''id'' of
        None \<Rightarrow> Inl (ValueError ''ticket must have an 'id' field'')
      | Some tid \<Rightarrow>
          (let summary_content =
                 py_or (py_get (ticket_fields ticket) ''Summary'')
                   (py_or (py_get (ticket_fields ticket) ''summary'')
                      (py_get_default (ticket_fields ticket) ''title'' (PStr [])));
               description_content =
                 py_or (py_get (ticket_fields ticket) ''Description'')
                   (py_or (py_get (ticket_fields ticket) ''description'')
                      (py_get_default (ticket_fields ticket) ''text'' (PStr [])));
               priority =
                 py_or (py_get (ticket_fields ticket) ''Priority'')
                   (py_get_default (ticket_fields ticket) ''priority'' (PStr []))
           in Inr
             ((if truthy summary_content
               then [\<lparr>node_id = py_str tid @ ''_summary'', node_section = ''Summary'',
                      content = py_str summary_content\<rparr>]
               else [])
              @ (if truthy description_content
                 then [\<lparr>node_id = py_str tid @ ''_description'', node_section = ''Description'',
                        content = py_str description_content\<rparr>]
                 else [])
              @ (if truthy priority
                 then [\<lparr>node_id = py_str tid @ ''_priority'', node_section = ''Priority'',
                        content = py_str priority\<rparr>]
                 else [])
              @ (if truthy description_content
                 then map (\<lambda>(i, code).
                             \<lparr>node_id = py_str tid @ ''_code_'' @ str_nat i,
                              node_section = ''Code'', content = code\<rparr>)
                        (enumerate 0 (extract_code_sections (py_str description_content)))
                 else []))))"

subsection \<open>Tree construction\<close>

text \<open>
  The root of \<^verbatim>\<open>construct_ticket_tree\<close>: the first node whose section is \<^verbatim>\<open>Summary\<close>,
  and the first node when there is none. It is only used on a non-empty list.
\<close>

definition root_node :: "TicketNode list \<Rightarrow> TicketNode" where
  "root_node ns =
     (case find (\<lambda>node. node_section node = ''Summary'') ns of
        Some node \<Rightarrow> node
      | None \<Rightarrow> hd ns)"

text \<open>
  The edges one node contributes in the loop: the \<^verbatim>\<open>contains\<close> edge from the root unless
  the node equals the root (data-class equality, on all three fields), then for a
  \<^verbatim>\<open>Code\<close> node the \<^verbatim>\<open>has_code\<close> edge from the first \<^verbatim>\<open>Description\<close> node.
\<close>

definition node_edges :: "TicketNode list \<Rightarrow> TicketNode \<Rightarrow> (string \<times> string \<times> string) list" where
  "node_edges ns node =
     (if node \<noteq> root_node ns then [(node_id (root_node ns), node_id node, ''contains'')] else [])
     @ (if node_section node = ''Code''
        then (case find (\<lambda>potential_parent. node_section potential_parent = ''Description'') ns of
                Some potential_parent \<Rightarrow> [(node_id potential_parent, node_id node, ''has_code'')]
              | None \<Rightarrow> [])
        else [])"

definition construct_ticket_tree :: "TicketNode list \<Rightarrow> TicketTree" where
  "construct_ticket_tree ns =
     (if ns = [] then \<lparr>tree_id = [], nodes = [], edges = []\<rparr>
      else \<lparr>tree_id = hd (split_on CHR ''_'' (node_id (root_node ns))),
            nodes = ns,
            edges = concat (map (node_edges ns) ns)\<rparr>)"

subsection \<open>Representative text of a tree\<close>

text \<open>
  \<^verbatim>\<open>get_ticket_title\<close> returns at the first node that is a \<^verbatim>\<open>Summary\<close> or a
  \<^verbatim>\<open>Description\<close>, in the order of the list; \<open>title_scan\<close> is that loop.
\<close>

fun title_scan :: "TicketNode list \<Rightarrow> string option" where
  "title_scan [] = None"
| "title_scan (node # ns) =
     (if node_section node = ''Summary'' then Some (content node)
      else if node_section node = ''Description'' then Some (take 50 (content node))
      else title_scan ns)"

definition get_ticket_title :: "TicketTree \<Rightarrow> string" where
  "get_ticket_title tree =
     (case title_scan (nodes tree) of Some title \<Rightarrow> title | None \<Rightarrow> tree_id tree)"

subsection \<open>Cosine similarity\<close>

text \<open>
  The floating-point values \<^verbatim>\<open>cosine_similarity\<close> can return. Finite values are real
  numbers (rounding is not modelled); what division does at a zero divisor is: NumPy
  does not raise there, \<^verbatim>\<open>0.0 / 0.0\<close> is \<^verbatim>\<open>nan\<close> and \<^verbatim>\<open>x / 0.0\<close> is an infinity with the
  sign of \<^verbatim>\<open>x\<close> (the divisor, a product of norms, is never \<^verbatim>\<open>-0.0\<close>).
\<close>

datatype npfloat = Fin real | PosInf | NegInf | NaN

definition np_divide :: "real \<Rightarrow> real \<Rightarrow> npfloat" where
  "np_divide x y =
     (if y = 0 then (if x = 0 then NaN else if 0 < x then PosInf else NegInf)
      else Fin (x / y))"

text \<open>\<^verbatim>\<open>np.dot\<close> of two one-dimensional arrays raises \<^verbatim>\<open>ValueError\<close> when the lengths differ.\<close>

definition np_dot :: "real list \<Rightarrow> real list \<Rightarrow> error + real" where
  "np_dot a b =
     (if length a \<noteq> length b then Inl (ValueError ''shapes not aligned'')
      else Inr (sum_list (map (\<lambda>(x, y). x * y) (zip a b))))"

definition np_norm :: "real list \<Rightarrow> real" where
  "np_norm a = sqrt (sum_list (map (\<lambda>x. x * x) a))"

definition cosine_similarity :: "real list \<Rightarrow> real list \<Rightarrow> error + npfloat" where
  "cosine_similarity vec1 vec2 =
     (case np_dot vec1 vec2 of
        Inl e \<Rightarrow> Inl e
      | Inr d \<Rightarrow> Inr (np_divide d (np_norm vec1 * np_norm vec2)))"

subsection \<open>The engine object and its output channels\<close>

text \<open>
  An \<^verbatim>\<open>IssueKnowledgeGraph\<close> holds the embedding model and the similarity threshold. The
  embedding model is the provider's \<^verbatim>\<open>embed\<close> as a function of the text: a vector or the
  exception it raises. The constructor refuses a threshold outside \<open>[0, 1]\<close>; that its
  first argument is an \<^verbatim>\<open>EmbeddingModel\<close> is the type of \<open>embedding_model\<close>.
\<close>

record IssueKnowledgeGraph =
  embedding_model :: "string \<Rightarrow> error + real list"
  similarity_threshold :: real

definition init_IssueKnowledgeGraph ::
    "(string \<Rightarrow> error + real list) \<Rightarrow> real \<Rightarrow> error + IssueKnowledgeGraph" where
  "init_IssueKnowledgeGraph model threshold =
     (if \<not> (0 \<le> threshold \<and> threshold \<le> 1)
      then Inl (ValueError ''threshold must be between 0 and 1'')
      else Inr \<lparr>embedding_model = model, similarity_threshold = threshold\<rparr>)"

text \<open>
  What the code writes besides its result, in the order it writes it: the calls of the
  \<^verbatim>\<open>GraphLogger\<close> (\<^verbatim>\<open>log_ticket_processing\<close>, \<^verbatim>\<open>log_error\<close> with its context, the
  exception and the \<^verbatim>\<open>ticket_id\<close> of its data, \<^verbatim>\<open>log_connection\<close> for either kind of
  connection) and the two \<^verbatim>\<open>print\<close> statements of the exception handlers.
\<close>

datatype event =
    LogTicketProcessing string nat nat
  | LogError string error pyval
  | LogConnectionExplicit pyval pyval pyval
  | LogConnectionImplicit string string npfloat
  | PrintLLMError error
  | PrintSimilarityError error

subsection \<open>Template-driven extraction\<close>

text \<open>
  \<^verbatim>\<open>_extract_section_with_llm\<close> is a stub that returns the empty string, so the branch of
  \<^verbatim>\<open>parse_ticket_with_llm\<close> that appends a node is never taken. The loop runs inside a
  \<^verbatim>\<open>try\<close>: an exception is printed and the nodes collected so far are returned.
\<close>

record Template =
  template_sections :: "pydict list option"

definition extract_section_with_llm :: "Ticket \<Rightarrow> pydict \<Rightarrow> string" where
  "extract_section_with_llm ticket section = []"

fun llm_loop :: "Ticket \<Rightarrow> pydict list \<Rightarrow> TicketNode list \<Rightarrow> TicketNode list \<times> event list" where
  "llm_loop ticket [] ns = (ns, [])"
| "llm_loop ticket (section # rest) ns =
     (case section ''name'' of
        None \<Rightarrow> (ns, [PrintLLMError (KeyError ''name'')])
      | Some section_name \<Rightarrow>
          (let section_content = extract_section_with_llm ticket section in
           if section_content \<noteq> [] then
             (case ticket_fields ticket ''id'' of
                None \<Rightarrow> (ns, [PrintLLMError (KeyError ''id'')])
              | Some tid \<Rightarrow>
                  (case section_name of
                     PStr name \<Rightarrow>
                       llm_loop ticket rest
                         (ns @ [\<lparr>node_id = py_str tid @ ''_'' @ lower name,
                                 node_section = name, content = section_content\<rparr>])
                   | _ \<Rightarrow> (ns, [PrintLLMError (AttributeError ''lower'')])))
           else llm_loop ticket rest ns))"

definition parse_ticket_with_llm :: "Ticket \<Rightarrow> Template \<Rightarrow> TicketNode list \<times> event list" where
  "parse_ticket_with_llm ticket template =
     llm_loop ticket (case template_sections template of None \<Rightarrow> [] | Some ss \<Rightarrow> ss) []"

subsection \<open>Implicit connections\<close>

text \<open>
  \<^verbatim>\<open>calculate_similarity\<close> embeds the two titles, first one then the other, on every
  call; any exception on the way is printed and the result is \<^verbatim>\<open>0.0\<close>.
\<close>

definition calculate_similarity ::
    "IssueKnowledgeGraph \<Rightarrow> TicketTree \<Rightarrow> TicketTree \<Rightarrow> npfloat \<times> event list" where
  "calculate_similarity self tree1 tree2 =
     (let title1 = get_ticket_title tree1;
          title2 = get_ticket_title tree2
      in case embedding_model self title1 of
           Inl e \<Rightarrow> (Fin 0, [PrintSimilarityError e])
         | Inr embedding1 \<Rightarrow>
             (case embedding_model self title2 of
                Inl e \<Rightarrow> (Fin 0, [PrintSimilarityError e])
              | Inr embedding2 \<Rightarrow>
                  (case cosine_similarity embedding1 embedding2 of
                     Inl e \<Rightarrow> (Fin 0, [PrintSimilarityError e])
                   | Inr similarity \<Rightarrow> (similarity, []))))"

text \<open>\<^verbatim>\<open>similarity >= threshold\<close> on floats: false for \<^verbatim>\<open>nan\<close>.\<close>

fun np_ge :: "npfloat \<Rightarrow> real \<Rightarrow> bool" where
  "np_ge (Fin x) t = (t \<le> x)"
| "np_ge PosInf t = True"
| "np_ge NegInf t = False"
| "np_ge NaN t = False"

text \<open>
  The inner loop of \<^verbatim>\<open>find_implicit_connections\<close>, over the trees after \<open>tree1\<close>, and
  the outer loop over the trees.
\<close>

fun pair_loop ::
    "IssueKnowledgeGraph \<Rightarrow> TicketTree \<Rightarrow> TicketTree list
       \<Rightarrow> (string \<times> string \<times> npfloat) list \<times> event list" where
  "pair_loop self tree1 [] = ([], [])"
| "pair_loop self tree1 (tree2 # rest) =
     (case calculate_similarity self tree1 tree2 of (similarity, printed) \<Rightarrow>
      case pair_loop self tree1 rest of (connections, printed') \<Rightarrow>
        ((if np_ge similarity (similarity_threshold self)
          then [(tree_id tree1, tree_id tree2, similarity)] else []) @ connections,
         printed @ printed'))"

fun find_implicit_connections ::
    "IssueKnowledgeGraph \<Rightarrow> TicketTree list
       \<Rightarrow> (string \<times> string \<times> npfloat) list \<times> event list" where
  "find_implicit_connections self [] = ([], [])"
| "find_implicit_connections self (tree1 # rest) =
     (case pair_loop self tree1 rest of (connections, printed) \<Rightarrow>
      case find_implicit_connections self rest of (connections', printed') \<Rightarrow>
        (connections @ connections', printed @ printed'))"

subsection \<open>Explicit connections\<close>

text \<open>
  One connection per link: \<^verbatim>\<open>ticket['id']\<close>, \<^verbatim>\<open>link['ticket_id']\<close> and
  \<^verbatim>\<open>link['relationship']\<close> are read in this order and a missing key raises
  \<^verbatim>\<open>KeyError\<close>, which nothing in \<^verbatim>\<open>find_explicit_connections\<close> catches.
\<close>

definition link_connection :: "Ticket \<Rightarrow> pydict \<Rightarrow> error + (pyval \<times> pyval \<times> pyval)" where
  "link_connection ticket link =
     (case ticket_fields ticket ''id'' of
        None \<Rightarrow> Inl (KeyError ''id'')
      | Some tid \<Rightarrow>
          (case link ''ticket_id'' of
             None \<Rightarrow> Inl (KeyError ''ticket_id'')
           | Some target \<Rightarrow>
               (case link ''relationship'' of
                  None \<Rightarrow> Inl (KeyError ''relationship'')
                | Some relationship \<Rightarrow> Inr (tid, target, relationship))))"

fun links_loop :: "Ticket \<Rightarrow> pydict list \<Rightarrow> error + (pyval \<times> pyval \<times> pyval) list" where
  "links_loop ticket [] = Inr []"
| "links_loop ticket (link # rest) =
     (case link_connection ticket link of
        Inl e \<Rightarrow> Inl e
      | Inr connection \<Rightarrow>
          (case links_loop ticket rest of
             Inl e \<Rightarrow> Inl e
           | Inr connections \<Rightarrow> Inr (connection # connections)))"

fun find_explicit_connections :: "Ticket list \<Rightarrow> error + (pyval \<times> pyval \<times> pyval) list" where
  "find_explicit_connections [] = Inr []"
| "find_explicit_connections (ticket # rest) =
     (case (case links ticket of None \<Rightarrow> Inr [] | Some ls \<Rightarrow> links_loop ticket ls) of
        Inl e \<Rightarrow> Inl e
      | Inr connections \<Rightarrow>
          (case find_explicit_connections rest of
             Inl e \<Rightarrow> Inl e
           | Inr connections' \<Rightarrow> Inr (connections @ connections')))"

subsection \<open>Building the graph\<close>

record KnowledgeGraph =
  trees :: "TicketTree list"
  explicit_connections :: "(pyval \<times> pyval \<times> pyval) list"
  implicit_connections :: "(string \<times> string \<times> npfloat) list"

text \<open>
  The body of the first loop of \<^verbatim>\<open>build_graph\<close> for one ticket: the trees it appends
  (one or none) and what it logs. An exception of the parser is logged with the ticket's
  \<^verbatim>\<open>id\<close>, or \<^verbatim>\<open>unknown\<close> when it has none, and the loop goes on.
\<close>

definition process_ticket :: "Template \<Rightarrow> Ticket \<Rightarrow> TicketTree list \<times> event list" where
  "process_ticket template ticket =
     (case parse_ticket_with_rules ticket of
        Inl e \<Rightarrow>
          ([], [LogError ''ticket_processing'' e
                  (py_get_default (ticket_fields ticket) ''id'' (PStr ''unknown''))])
      | Inr rule_based_nodes \<Rightarrow>
          (case parse_ticket_with_llm ticket template of (llm_based_nodes, printed) \<Rightarrow>
             (let tree = construct_ticket_tree (rule_based_nodes @ llm_based_nodes)
              in ([tree],
                  printed @ [LogTicketProcessing (tree_id tree) (length (nodes tree))
                               (length (edges tree))]))))"

fun process_tickets :: "Template \<Rightarrow> Ticket list \<Rightarrow> TicketTree list \<times> event list" where
  "process_tickets template [] = ([], [])"
| "process_tickets template (ticket # rest) =
     (case process_ticket template ticket of (ts, logged) \<Rightarrow>
      case process_tickets template rest of (ts', logged') \<Rightarrow>
        (ts @ ts', logged @ logged'))"

text \<open>
  \<^verbatim>\<open>build_graph\<close>: the trees, then the explicit connections (whose \<^verbatim>\<open>KeyError\<close> ends the
  build), then the implicit ones, each connection logged.
\<close>

definition build_graph ::
    "IssueKnowledgeGraph \<Rightarrow> Ticket list \<Rightarrow> Template \<Rightarrow> (error + KnowledgeGraph) \<times> event list" where
  "build_graph self tickets template =
     (case process_tickets template tickets of (ts, logged) \<Rightarrow>
      case find_explicit_connections tickets of
        Inl e \<Rightarrow> (Inl e, logged)
      | Inr explicit \<Rightarrow>
          (case find_implicit_connections self ts of (implicit, printed) \<Rightarrow>
             (Inr \<lparr>trees = ts, explicit_connections = explicit,
                   implicit_connections = implicit\<rparr>,
              logged
              @ map (\<lambda>(from_id, to_id, rel_type). LogConnectionExplicit from_id to_id rel_type)
                  explicit
              @ printed
              @ map (\<lambda>(from_id, to_id, similarity). LogConnectionImplicit from_id to_id similarity)
                  implicit)))"

subsection \<open>Notions used to state the properties\<close>

text \<open>
  The \<^verbatim>\<open>contains\<close> edges of a tree as a relation on node identifiers, the number of
  \<^verbatim>\<open>contains\<close> edges that arrive at an identifier, and what it means for the tree built
  from the nodes \<open>ns\<close> to be a tree under its root: the root is one of the nodes and no
  \<^verbatim>\<open>contains\<close> edge arrives at it, exactly one arrives at every other node, all of them
  leave the root, and the relation has no cycle.
\<close>

definition contains_edges :: "TicketTree \<Rightarrow> (string \<times> string) set" where
  "contains_edges t = {(a, b). (a, b, ''contains'') \<in> set (edges t)}"

definition incoming_contains :: "TicketTree \<Rightarrow> string \<Rightarrow> nat" where
  "incoming_contains t i = length (filter (\<lambda>(a, b, l). b = i \<and> l = ''contains'') (edges t))"

definition rooted_tree :: "TicketNode list \<Rightarrow> TicketTree \<Rightarrow> bool" where
  "rooted_tree ns t \<longleftrightarrow>
     root_node ns \<in> set ns
     \<and> incoming_contains t (node_id (root_node ns)) = 0
     \<and> (\<forall>n \<in> set ns. n \<noteq> root_node ns \<longrightarrow> incoming_contains t (node_id n) = 1)
     \<and> (\<forall>(a, b, l) \<in> set (edges t). l = ''contains'' \<longrightarrow> a = node_id (root_node ns))
     \<and> acyclic (contains_edges t)"

text \<open>
  The links a ticket declares, the tickets on which \<^verbatim>\<open>find_explicit_connections\<close> reads
  no missing key (a ticket that declares a link has an \<^verbatim>\<open>id\<close>, every link has the keys
  \<^verbatim>\<open>ticket_id\<close> and \<^verbatim>\<open>relationship\<close>), and the projection of the link metadata: one
  triple per declared link, in the order of the tickets and of their links.
\<close>

definition declared_links :: "Ticket \<Rightarrow> pydict list" where
  "declared_links ticket = (case links ticket of None \<Rightarrow> [] | Some ls \<Rightarrow> ls)"

definition well_formed_links :: "Ticket \<Rightarrow> bool" where
  "well_formed_links ticket \<longleftrightarrow>
     (declared_links ticket \<noteq> [] \<longrightarrow> ticket_fields ticket ''id'' \<noteq> None)
     \<and> (\<forall>link \<in> set (declared_links ticket).
           link ''ticket_id'' \<noteq> None \<and> link ''relationship'' \<noteq> None)"

definition links_projection :: "Ticket list \<Rightarrow> (pyval \<times> pyval \<times> pyval) list" where
  "links_projection tickets =
     concat (map (\<lambda>ticket.
                    map (\<lambda>link. (py_get (ticket_fields ticket) ''id'',
                                  py_get link ''ticket_id'',
                                  py_get link ''relationship''))
                      (declared_links ticket))
               tickets)"






text \<open>
  For the build: whether a ticket has the key \<^verbatim>\<open>id\<close>, whether none of the field names
  the rule-based parser reads holds a true value, the tree of the rule-based nodes of a
  ticket, and the events that are calls of \<^verbatim>\<open>log_error\<close>.
\<close>

definition has_id :: "Ticket \<Rightarrow> bool" where
  "has_id ticket \<longleftrightarrow> ticket_fields ticket ''id'' \<noteq> None"

definition no_content :: "Ticket \<Rightarrow> bool" where
  "no_content ticket \<longleftrightarrow>
     (\<forall>key \<in> set [''Summary'', ''summary'', ''title'', ''Description'', ''description'',
                   ''text'', ''Priority'', ''priority''].
        \<not> truthy (py_get (ticket_fields ticket) key))"

definition rule_based_tree :: "Ticket \<Rightarrow> TicketTree" where
  "rule_based_tree ticket =
     construct_ticket_tree (case parse_ticket_with_rules ticket of Inl e \<Rightarrow> [] | Inr ns \<Rightarrow> ns)"

fun is_error_event :: "event \<Rightarrow> bool" where
  "is_error_event (LogError context e ticket_id) = True"
| "is_error_event _ = False"

definition missing_id_error :: event where
  "missing_id_error =
     LogError ''ticket_processing'' (ValueError ''ticket must have an 'id' field'')
       (PStr ''unknown'')"

section \<open>Properties\<close>

subsection \<open>Code-section extraction\<close>

text \<open>
  C1. A description that is one fenced block, \<^verbatim>\<open>```\<close>, \<^verbatim>\<open>x=1\<close>, \<^verbatim>\<open>```\<close> on three lines,
  should give exactly one code section \<^verbatim>\<open>x=1\<close>. The scan gives none: the opening fence
  sets \<^verbatim>\<open>in_code_block\<close>, and on the body line, which is neither indented by four
  spaces nor blank, the test that ends an indented block fires and clears the flag again
  before the line is collected; the closing fence then only sets the flag. A ticket with
  that description gets its Description node and no Code node.
\<close>

theorem extract_code_sections_fenced_block_lost:
  "extract_code_sections ''```\<newline>x=1\<newline>```'' = []
   \<and> parse_ticket_with_rules
       \<lparr>ticket_fields = [''id'' \<mapsto> PStr ''T'', ''Description'' \<mapsto> PStr ''```\<newline>x=1\<newline>```''],
        links = None\<rparr>
     = Inr [\<lparr>node_id = ''T_description'', node_section = ''Description'',
              content = ''```\<newline>x=1\<newline>```''\<rparr>]"
proof -
  have sections: "extract_code_sections ''```\<newline>x=1\<newline>```'' = []"
    by code_simp
  show ?thesis
    by (simp add: sections parse_ticket_with_rules_def py_get_def py_get_default_def py_or_def)
qed

subsection \<open>Cosine similarity\<close>

text \<open>
  C2. When one of the two vectors has norm zero the similarity should be 0. No branch of
  \<^verbatim>\<open>cosine_similarity\<close> looks at the norms: with the all-zero vector the dot product and
  the product of the norms are both zero and the division gives \<^verbatim>\<open>nan\<close>.
\<close>

theorem cosine_similarity_zero_vector_nan:
  "cosine_similarity [0, 0] [1, 2] = Inr NaN"
  by (simp add: cosine_similarity_def np_dot_def np_norm_def np_divide_def)

subsection \<open>Representative text\<close>

text \<open>
  C6. The representative text should be the content of the Summary node wherever that
  node stands in the list. \<^verbatim>\<open>get_ticket_title\<close> returns at the first Summary or
  Description node it meets: with a Description node before the Summary node it returns
  the (truncated) description.
\<close>

theorem get_ticket_title_description_before_summary:
  "get_ticket_title
     \<lparr>tree_id = ''T'',
      nodes = [\<lparr>node_id = ''T_description'', node_section = ''Description'', content = ''details''\<rparr>,
               \<lparr>node_id = ''T_summary'', node_section = ''Summary'', content = ''Login bug''\<rparr>],
      edges = []\<rparr>
   = ''details''"
  by (simp add: get_ticket_title_def)

subsection \<open>Tree identifier\<close>

text \<open>
  C8. The identifier of the tree should be the identifier of the ticket. It is the part of
  the root node's identifier before its first underscore: for the ticket \<^verbatim>\<open>PROJ_123\<close>
  with a summary, the root is \<^verbatim>\<open>PROJ_123_summary\<close> and the tree is named \<^verbatim>\<open>PROJ\<close>.
\<close>

theorem construct_ticket_tree_id_truncated:
  "parse_ticket_with_rules
     \<lparr>ticket_fields = [''id'' \<mapsto> PStr ''PROJ_123'', ''Summary'' \<mapsto> PStr ''Login bug''],
      links = None\<rparr>
   = Inr [\<lparr>node_id = ''PROJ_123_summary'', node_section = ''Summary'', content = ''Login bug''\<rparr>]
   \<and> tree_id (construct_ticket_tree
                [\<lparr>node_id = ''PROJ_123_summary'', node_section = ''Summary'',
                  content = ''Login bug''\<rparr>])
     = ''PROJ''"
  by (simp add: parse_ticket_with_rules_def construct_ticket_tree_def root_node_def
      py_get_def py_get_default_def py_or_def)

subsection \<open>Tree construction\<close>

lemma root_node_in_set: "ns \<noteq> [] \<Longrightarrow> root_node ns \<in> set ns"
  by (auto simp: root_node_def find_Some_iff split: option.splits)

lemma length_filter_concat_map:
  "length (filter P (concat (map f xs))) = (\<Sum>x\<leftarrow>xs. length (filter P (f x)))"
  by (induction xs) auto

lemma sum_list_indicator:
  "(\<Sum>x\<leftarrow>xs. if Q x then 1 else 0) = length (filter Q xs)"
  by (induction xs) auto

lemma node_edges_None:
  "find (\<lambda>p::TicketNode. node_section p = ''Description'') ns = None \<Longrightarrow>
   node_edges ns n =
     (if n \<noteq> root_node ns then [(node_id (root_node ns), node_id n, ''contains'')] else [])"
  by (simp add: node_edges_def)

lemma node_edges_Some:
  "find (\<lambda>p::TicketNode. node_section p = ''Description'') ns = Some d \<Longrightarrow>
   node_edges ns n =
     (if n \<noteq> root_node ns then [(node_id (root_node ns), node_id n, ''contains'')] else [])
     @ (if node_section n = ''Code'' then [(node_id d, node_id n, ''has_code'')] else [])"
  by (simp add: node_edges_def)

lemma incoming_node_edges:
  "length (filter (\<lambda>(a, b, l). b = i \<and> l = ''contains'') (node_edges ns n))
   = (if n \<noteq> root_node ns \<and> node_id n = i then 1 else 0)"
proof (cases "find (\<lambda>p::TicketNode. node_section p = ''Description'') ns")
  case None
  show ?thesis by (simp add: node_edges_None [OF None])
next
  case (Some d)
  show ?thesis by (simp add: node_edges_Some [OF Some])
qed

lemma contains_edge_source:
  assumes "(a, b, ''contains'') \<in> set (node_edges ns n)"
  shows "a = node_id (root_node ns) \<and> b = node_id n \<and> n \<noteq> root_node ns"
proof (cases "find (\<lambda>p::TicketNode. node_section p = ''Description'') ns")
  case None
  with assms show ?thesis by (simp add: node_edges_None [OF None] split: if_splits)
next
  case (Some d)
  with assms show ?thesis by (simp add: node_edges_Some [OF Some] split: if_splits)
qed

lemma incoming_contains_char:
  "ns \<noteq> [] \<Longrightarrow>
   incoming_contains (construct_ticket_tree ns) i
   = length (filter (\<lambda>n. n \<noteq> root_node ns \<and> node_id n = i) ns)"
  by (simp add: incoming_contains_def construct_ticket_tree_def length_filter_concat_map
      incoming_node_edges sum_list_indicator)

lemma star_acyclic:
  assumes "r \<subseteq> {a} \<times> (- {a})"
  shows "acyclic r"
proof (rule acyclicI, rule allI, rule notI)
  fix x
  assume "(x, x) \<in> r\<^sup>+"
  then obtain z where xz: "(x, z) \<in> r" and zx: "(z, x) \<in> r\<^sup>*"
    by (meson tranclD)
  from xz assms have "x = a" and "z \<noteq> a" by auto
  with zx have "(z, a) \<in> r\<^sup>+" by (auto dest: rtranclD)
  then obtain w where "(w, a) \<in> r" by (meson tranclD2)
  with assms show False by auto
qed

lemma distinct_ids_count:
  "distinct (map f xs) \<Longrightarrow> x \<in> set xs \<Longrightarrow> length (filter (\<lambda>m. f m = f x) xs) = 1"
proof (induction xs)
  case Nil
  then show ?case by simp
next
  case (Cons y ys)
  show ?case
  proof (cases "y = x")
    case True
    with Cons.prems have "\<forall>m \<in> set ys. f m \<noteq> f x" by (metis distinct.simps(2) image_eqI list.simps(9) set_map)
    then have "filter (\<lambda>m. f m = f x) ys = []" by (simp add: filter_empty_conv)
    with True show ?thesis by simp
  next
    case False
    with Cons.prems have x: "x \<in> set ys" by simp
    with Cons.prems have "f y \<noteq> f x" by (metis distinct.simps(2) image_eqI list.simps(9) set_map)
    with Cons.IH Cons.prems x show ?thesis by simp
  qed
qed

lemma distinct_ids_eq:
  assumes "distinct (map f xs)" "n \<in> set xs" "m \<in> set xs" "f m = f n"
  shows "m = n"
  using assms by (meson distinct_map inj_onD)

text \<open>
  C3, as amended. For a non-empty list of nodes whose identifiers are pairwise distinct,
  the tree has one root, the first Summary node or else the first node, no
  \<^verbatim>\<open>contains\<close> edge arrives at the root, exactly one arrives at every other node, and
  the \<^verbatim>\<open>contains\<close> edges form no cycle.
\<close>

theorem construct_ticket_tree_rooted:
  assumes ne: "ns \<noteq> []" and dist: "distinct (map node_id ns)"
  shows "rooted_tree ns (construct_ticket_tree ns)"
proof -
  let ?r = "root_node ns"
  let ?t = "construct_ticket_tree ns"
  have r_in: "?r \<in> set ns" using ne by (rule root_node_in_set)
  have same_id: "m = ?r" if "m \<in> set ns" "node_id m = node_id ?r" for m
    using distinct_ids_eq [OF dist r_in that] .
  have root0: "incoming_contains ?t (node_id ?r) = 0"
  proof -
    have "\<forall>m \<in> set ns. \<not> (m \<noteq> ?r \<and> node_id m = node_id ?r)"
      using same_id by blast
    then have "filter (\<lambda>m. m \<noteq> ?r \<and> node_id m = node_id ?r) ns = []"
      by (simp only: filter_empty_conv)
    then show ?thesis by (simp only: incoming_contains_char [OF ne] list.size)
  qed
  have other1: "incoming_contains ?t (node_id n) = 1" if n: "n \<in> set ns" "n \<noteq> ?r" for n
  proof -
    have "filter (\<lambda>m. m \<noteq> ?r \<and> node_id m = node_id n) ns
          = filter (\<lambda>m. node_id m = node_id n) ns"
    proof (rule filter_cong [OF refl])
      fix m assume "m \<in> set ns"
      then show "(m \<noteq> ?r \<and> node_id m = node_id n) = (node_id m = node_id n)"
        using distinct_ids_eq [OF dist n(1)] n(2) by blast
    qed
    then show ?thesis
      by (simp only: incoming_contains_char [OF ne] distinct_ids_count [OF dist n(1)])
  qed
  have src: "a = node_id ?r \<and> b \<noteq> node_id ?r"
    if "(a, b, ''contains'') \<in> set (edges ?t)" for a b
  proof -
    from that ne obtain n where n: "n \<in> set ns" "(a, b, ''contains'') \<in> set (node_edges ns n)"
      by (auto simp: construct_ticket_tree_def)
    from contains_edge_source [OF n(2)] same_id [OF n(1)] show ?thesis by auto
  qed
  have "contains_edges ?t \<subseteq> {node_id ?r} \<times> (- {node_id ?r})"
    using src by (auto simp: contains_edges_def)
  then have acyc: "acyclic (contains_edges ?t)" by (rule star_acyclic)
  have from_root: "\<forall>(a, b, l) \<in> set (edges ?t). l = ''contains'' \<longrightarrow> a = node_id ?r"
    using src by blast
  show ?thesis
    unfolding rooted_tree_def using r_in root0 other1 from_root acyc by blast
qed

theorem construct_ticket_tree_rooted_witness:
  "rooted_tree
     [\<lparr>node_id = ''A_description'', node_section = ''Description'', content = ''d''\<rparr>,
      \<lparr>node_id = ''A_summary'', node_section = ''Summary'', content = ''s''\<rparr>,
      \<lparr>node_id = ''A_code_0'', node_section = ''Code'', content = ''x=1''\<rparr>]
     (construct_ticket_tree
        [\<lparr>node_id = ''A_description'', node_section = ''Description'', content = ''d''\<rparr>,
         \<lparr>node_id = ''A_summary'', node_section = ''Summary'', content = ''s''\<rparr>,
         \<lparr>node_id = ''A_code_0'', node_section = ''Code'', content = ''x=1''\<rparr>])"
  by (rule construct_ticket_tree_rooted) simp_all

text \<open>
  Without the distinctness of the identifiers the property fails: a Description node that
  carries the identifier of the Summary node gets the edge from the root to that same
  identifier, a \<^verbatim>\<open>contains\<close> edge from the root to itself.
\<close>

theorem construct_ticket_tree_colliding_ids:
  "edges (construct_ticket_tree
            [\<lparr>node_id = ''A'', node_section = ''Summary'', content = ''s''\<rparr>,
             \<lparr>node_id = ''A'', node_section = ''Description'', content = ''d''\<rparr>])
   = [(''A'', ''A'', ''contains'')]
   \<and> \<not> acyclic (contains_edges (construct_ticket_tree
            [\<lparr>node_id = ''A'', node_section = ''Summary'', content = ''s''\<rparr>,
             \<lparr>node_id = ''A'', node_section = ''Description'', content = ''d''\<rparr>]))
   \<and> \<not> rooted_tree
         [\<lparr>node_id = ''A'', node_section = ''Summary'', content = ''s''\<rparr>,
          \<lparr>node_id = ''A'', node_section = ''Description'', content = ''d''\<rparr>]
         (construct_ticket_tree
            [\<lparr>node_id = ''A'', node_section = ''Summary'', content = ''s''\<rparr>,
             \<lparr>node_id = ''A'', node_section = ''Description'', content = ''d''\<rparr>])"
proof -
  let ?ns = "[\<lparr>node_id = ''A'', node_section = ''Summary'', content = ''s''\<rparr>,
              \<lparr>node_id = ''A'', node_section = ''Description'', content = ''d''\<rparr>]"
  have e: "edges (construct_ticket_tree ?ns) = [(''A'', ''A'', ''contains'')]"
    by (simp add: construct_ticket_tree_def node_edges_def root_node_def)
  then have "(''A'', ''A'') \<in> contains_edges (construct_ticket_tree ?ns)"
    by (simp add: contains_edges_def)
  then have "(''A'', ''A'') \<in> (contains_edges (construct_ticket_tree ?ns))\<^sup>+" ..
  then have c: "\<not> acyclic (contains_edges (construct_ticket_tree ?ns))"
    unfolding acyclic_def by blast
  then have "\<not> rooted_tree ?ns (construct_ticket_tree ?ns)"
    by (simp add: rooted_tree_def)
  with e c show ?thesis by simp
qed

subsection \<open>Explicit connections\<close>

lemma links_loop_projection:
  assumes "ticket_fields ticket ''id'' = Some tid"
    and "\<forall>link \<in> set ls. link ''ticket_id'' \<noteq> None \<and> link ''relationship'' \<noteq> None"
  shows "links_loop ticket ls
         = Inr (map (\<lambda>link. (tid, py_get link ''ticket_id'', py_get link ''relationship'')) ls)"
  using assms
  by (induction ls) (auto simp: link_connection_def py_get_def)

lemma ticket_links_projection:
  assumes "well_formed_links ticket"
  shows "(case links ticket of None \<Rightarrow> Inr [] | Some ls \<Rightarrow> links_loop ticket ls)
         = Inr (map (\<lambda>link. (py_get (ticket_fields ticket) ''id'',
                               py_get link ''ticket_id'', py_get link ''relationship''))
                  (declared_links ticket))"
proof (cases "links ticket")
  case None
  then show ?thesis by (simp add: declared_links_def)
next
  case (Some ls)
  show ?thesis
  proof (cases ls)
    case Nil
    with Some show ?thesis by (simp add: declared_links_def)
  next
    case (Cons l ls')
    with Some assms obtain tid where tid: "ticket_fields ticket ''id'' = Some tid"
      by (auto simp: well_formed_links_def declared_links_def)
    from Some assms
    have "\<forall>link \<in> set ls. link ''ticket_id'' \<noteq> None \<and> link ''relationship'' \<noteq> None"
      by (simp add: well_formed_links_def declared_links_def)
    from links_loop_projection [OF tid this] Some tid show ?thesis
      by (simp add: declared_links_def py_get_def)
  qed
qed

lemma find_explicit_connections_well_formed:
  assumes "\<forall>ticket \<in> set tickets. well_formed_links ticket"
  shows "find_explicit_connections tickets = Inr (links_projection tickets)"
  using assms
proof (induction tickets)
  case Nil
  show ?case by (simp add: links_projection_def)
next
  case (Cons ticket rest)
  then have wf: "well_formed_links ticket"
    and rest: "find_explicit_connections rest = Inr (links_projection rest)"
    by simp_all
  show ?case
    by (simp add: ticket_links_projection [OF wf] rest links_projection_def)
qed




subsection \<open>Implicit connections\<close>

lemma pair_loop_connections:
  "fst (pair_loop self tree1 rest)
   = map (\<lambda>tree2. (tree_id tree1, tree_id tree2, fst (calculate_similarity self tree1 tree2)))
       (filter (\<lambda>tree2. np_ge (fst (calculate_similarity self tree1 tree2))
                           (similarity_threshold self)) rest)"
  by (induction rest) (auto split: prod.splits)










subsection \<open>Embedding failures\<close>

lemma calculate_similarity_failed_first:
  assumes "embedding_model self (get_ticket_title t) = Inl e"
  shows "calculate_similarity self t u = (Fin 0, [PrintSimilarityError e])"
  using assms by (simp add: calculate_similarity_def)

lemma calculate_similarity_failed_second:
  assumes "embedding_model self (get_ticket_title t) = Inl e"
  shows "\<exists>e'. calculate_similarity self u t = (Fin 0, [PrintSimilarityError e'])"
  using assms by (cases "embedding_model self (get_ticket_title u)")
    (simp_all add: calculate_similarity_def)

lemma pair_loop_skips_failed:
  assumes "embedding_model self (get_ticket_title t) = Inl e" and "0 < similarity_threshold self"
  shows "fst (pair_loop self u (xs @ t # ys)) = fst (pair_loop self u (xs @ ys))"
proof -
  from calculate_similarity_failed_second [OF assms(1), of u]
  have "fst (calculate_similarity self u t) = Fin 0" by auto
  with assms(2) show ?thesis by (simp add: pair_loop_connections)
qed

lemma pair_loop_of_failed:
  assumes "embedding_model self (get_ticket_title t) = Inl e" and "0 < similarity_threshold self"
  shows "fst (pair_loop self t ys) = []"
  using assms by (simp add: pair_loop_connections calculate_similarity_failed_first)

lemma find_implicit_connections_append:
  "fst (find_implicit_connections self (tree1 # rest))
   = fst (pair_loop self tree1 rest) @ fst (find_implicit_connections self rest)"
  by (simp split: prod.splits)

lemma find_implicit_connections_skips_failed:
  assumes "embedding_model self (get_ticket_title t) = Inl e" and "0 < similarity_threshold self"
  shows "fst (find_implicit_connections self (ts1 @ t # ts2))
         = fst (find_implicit_connections self (ts1 @ ts2))"
proof (induction ts1)
  case Nil
  show ?case
    by (simp only: append_Nil find_implicit_connections_append pair_loop_of_failed [OF assms])
next
  case (Cons u ts1)
  show ?case
    by (simp only: append_Cons find_implicit_connections_append Cons.IH
        pair_loop_skips_failed [OF assms])
qed

lemma pair_loop_printed_append:
  "snd (pair_loop self u (xs @ ys)) = snd (pair_loop self u xs) @ snd (pair_loop self u ys)"
  by (induction xs) (simp_all add: case_prod_beta)

lemma pair_loop_printed_Cons:
  "snd (pair_loop self u (t # ys))
   = snd (calculate_similarity self u t) @ snd (pair_loop self u ys)"
  by (simp add: case_prod_beta)

lemma find_implicit_connections_printed:
  "snd (find_implicit_connections self (u # rest))
   = snd (pair_loop self u rest) @ snd (find_implicit_connections self rest)"
  by (simp add: case_prod_beta)

lemma find_implicit_connections_reports_failed:
  assumes "embedding_model self (get_ticket_title t) = Inl e" and "ts1 @ ts2 \<noteq> []"
  shows "\<exists>e'. PrintSimilarityError e' \<in> set (snd (find_implicit_connections self (ts1 @ t # ts2)))"
proof (cases ts1)
  case Nil
  with assms(2) obtain u rest where ts2: "ts2 = u # rest" by (cases ts2) auto
  have "PrintSimilarityError e \<in> set (snd (find_implicit_connections self (t # u # rest)))"
    by (simp only: find_implicit_connections_printed pair_loop_printed_Cons
        calculate_similarity_failed_first [OF assms(1)] snd_conv) simp
  with Nil ts2 show ?thesis by auto
next
  case (Cons v ts1')
  from calculate_similarity_failed_second [OF assms(1), of v]
  obtain e' where e': "snd (calculate_similarity self v t) = [PrintSimilarityError e']" by auto
  have "PrintSimilarityError e'
          \<in> set (snd (find_implicit_connections self (v # (ts1' @ t # ts2))))"
    by (simp only: find_implicit_connections_printed pair_loop_printed_append
        pair_loop_printed_Cons e') simp
  with Cons show ?thesis by auto
qed

lemma build_graph_completes:
  "(\<exists>kg. fst (build_graph self tickets template) = Inr kg)
   \<longleftrightarrow> (\<exists>explicit. find_explicit_connections tickets = Inr explicit)"
  by (cases "find_explicit_connections tickets")
    (simp_all add: build_graph_def split: prod.splits)

text \<open>
  C5, as amended. When the embedding of a tree's title fails, every similarity computed
  with that tree is \<^verbatim>\<open>0.0\<close> and the exception is printed at that comparison, so the
  pass prints it as soon as there is another tree; with a threshold above zero the
  implicit connections are those of the list without the tree; and the build returns a
  graph whenever the explicit connections can be read, whatever the provider does.
\<close>

theorem find_implicit_connections_failed_embedding:
  assumes "embedding_model self (get_ticket_title t) = Inl e"
    and "0 < similarity_threshold self"
  shows "fst (find_implicit_connections self (ts1 @ t # ts2))
         = fst (find_implicit_connections self (ts1 @ ts2))
         \<and> (\<forall>u. calculate_similarity self t u = (Fin 0, [PrintSimilarityError e]))
         \<and> (\<forall>u. \<exists>e'. calculate_similarity self u t = (Fin 0, [PrintSimilarityError e']))
         \<and> (ts1 @ ts2 \<noteq> [] \<longrightarrow>
              (\<exists>e'. PrintSimilarityError e'
                      \<in> set (snd (find_implicit_connections self (ts1 @ t # ts2)))))
         \<and> (\<forall>tickets template.
               (\<exists>kg. fst (build_graph self tickets template) = Inr kg)
               \<longleftrightarrow> (\<exists>explicit. find_explicit_connections tickets = Inr explicit))"
proof (intro conjI allI impI)
  show "fst (find_implicit_connections self (ts1 @ t # ts2))
        = fst (find_implicit_connections self (ts1 @ ts2))"
    by (rule find_implicit_connections_skips_failed [OF assms])
  show "calculate_similarity self t u = (Fin 0, [PrintSimilarityError e])" for u
    by (rule calculate_similarity_failed_first [OF assms(1)])
  show "\<exists>e'. calculate_similarity self u t = (Fin 0, [PrintSimilarityError e'])" for u
    by (rule calculate_similarity_failed_second [OF assms(1)])
  show "\<exists>e'. PrintSimilarityError e' \<in> set (snd (find_implicit_connections self (ts1 @ t # ts2)))"
    if "ts1 @ ts2 \<noteq> []"
    using assms(1) that by (rule find_implicit_connections_reports_failed)
  show "(\<exists>kg. fst (build_graph self tickets template) = Inr kg)
        \<longleftrightarrow> (\<exists>explicit. find_explicit_connections tickets = Inr explicit)"
    for tickets template
    by (rule build_graph_completes)
qed

theorem find_implicit_connections_failed_embedding_witness:
  "fst (find_implicit_connections
          \<lparr>embedding_model =
             (\<lambda>text. if text = ''B'' then Inl (EmbeddingError ''down'') else Inr [1, 0]),
           similarity_threshold = 1 / 2\<rparr>
          [\<lparr>tree_id = ''A'', nodes = [], edges = []\<rparr>,
           \<lparr>tree_id = ''B'', nodes = [], edges = []\<rparr>,
           \<lparr>tree_id = ''C'', nodes = [], edges = []\<rparr>])
   = [(''A'', ''C'', Fin 1)]"
proof -
  let ?self = "\<lparr>embedding_model =
                  (\<lambda>text. if text = ''B'' then Inl (EmbeddingError ''down'') else Inr [1, 0]),
                similarity_threshold = 1 / 2\<rparr>"
  let ?A = "\<lparr>tree_id = ''A'', nodes = [], edges = []\<rparr>"
  let ?B = "\<lparr>tree_id = ''B'', nodes = [], edges = []\<rparr>"
  let ?C = "\<lparr>tree_id = ''C'', nodes = [], edges = []\<rparr>"
  have failed: "embedding_model ?self (get_ticket_title ?B) = Inl (EmbeddingError ''down'')"
    by (simp add: get_ticket_title_def)
  have positive: "0 < similarity_threshold ?self" by simp
  have without: "fst (find_implicit_connections ?self ([?A] @ [?C])) = [(''A'', ''C'', Fin 1)]"
    by (simp add: calculate_similarity_def get_ticket_title_def cosine_similarity_def
        np_dot_def np_norm_def np_divide_def)
  from find_implicit_connections_failed_embedding [OF failed positive, of "[?A]" "[?C]"]
  have "fst (find_implicit_connections ?self ([?A] @ ?B # [?C]))
        = fst (find_implicit_connections ?self ([?A] @ [?C]))"
    by (rule conjunct1)
  then show ?thesis
    unfolding without by (simp only: append_Cons append_Nil)
qed

text \<open>
  With the threshold \<open>0\<close>, which the constructor accepts, the tree whose embedding fails
  is not left out: the similarity \<^verbatim>\<open>0.0\<close> of the handler passes the comparison and the
  pair is emitted.
\<close>

theorem find_implicit_connections_failed_embedding_threshold_zero:
  "init_IssueKnowledgeGraph
     (\<lambda>text. if text = ''B'' then Inl (EmbeddingError ''down'') else Inr [1, 0]) 0
   = Inr \<lparr>embedding_model =
            (\<lambda>text. if text = ''B'' then Inl (EmbeddingError ''down'') else Inr [1, 0]),
          similarity_threshold = 0\<rparr>
   \<and> find_implicit_connections
       \<lparr>embedding_model =
          (\<lambda>text. if text = ''B'' then Inl (EmbeddingError ''down'') else Inr [1, 0]),
        similarity_threshold = 0\<rparr>
       [\<lparr>tree_id = ''A'', nodes = [], edges = []\<rparr>,
        \<lparr>tree_id = ''B'', nodes = [], edges = []\<rparr>]
     = ([(''A'', ''B'', Fin 0)], [PrintSimilarityError (EmbeddingError ''down'')])"
  by (simp add: init_IssueKnowledgeGraph_def calculate_similarity_def get_ticket_title_def)

subsection \<open>Building the graph\<close>

lemma llm_loop_nodes: "fst (llm_loop ticket ss ns) = ns"
  by (induction ss arbitrary: ns)
    (auto simp: extract_section_with_llm_def split: option.splits)

lemma llm_loop_events: "filter is_error_event (snd (llm_loop ticket ss ns)) = []"
  by (induction ss arbitrary: ns)
    (auto simp: extract_section_with_llm_def split: option.splits)

lemma process_ticket_without_id:
  assumes "\<not> has_id ticket"
  shows "process_ticket template ticket = ([], [missing_id_error])"
  using assms
  by (simp add: process_ticket_def parse_ticket_with_rules_def has_id_def py_get_default_def
      missing_id_error_def)

lemma parse_ticket_with_rules_id:
  assumes "has_id ticket"
  shows "\<exists>ns. parse_ticket_with_rules ticket = Inr ns"
  using assms by (auto simp: parse_ticket_with_rules_def has_id_def Let_def)

lemma process_ticket_with_id:
  assumes "has_id ticket"
  shows "fst (process_ticket template ticket) = [rule_based_tree ticket]
         \<and> filter is_error_event (snd (process_ticket template ticket)) = []"
proof -
  from parse_ticket_with_rules_id [OF assms]
  obtain ns where ns: "parse_ticket_with_rules ticket = Inr ns" ..
  obtain printed where llm: "parse_ticket_with_llm ticket template = ([], printed)"
    and printed: "filter is_error_event printed = []"
    using llm_loop_nodes [of ticket _ "[]"] llm_loop_events [of ticket _ "[]"]
    by (metis parse_ticket_with_llm_def prod.collapse)
  show ?thesis
    by (simp add: process_ticket_def ns llm printed rule_based_tree_def Let_def)
qed

lemma process_tickets_trees:
  "fst (process_tickets template tickets) = map rule_based_tree (filter has_id tickets)"
proof (induction tickets)
  case Nil
  show ?case by simp
next
  case (Cons ticket rest)
  show ?case
  proof (cases "has_id ticket")
    case True
    with process_ticket_with_id [OF True, of template] Cons.IH show ?thesis
      by (simp add: case_prod_beta)
  next
    case False
    with process_ticket_without_id [OF False, of template] Cons.IH show ?thesis
      by (simp add: case_prod_beta)
  qed
qed

lemma process_tickets_errors:
  "filter is_error_event (snd (process_tickets template tickets))
   = map (\<lambda>ticket. missing_id_error) (filter (\<lambda>ticket. \<not> has_id ticket) tickets)"
proof (induction tickets)
  case Nil
  show ?case by simp
next
  case (Cons ticket rest)
  show ?case
  proof (cases "has_id ticket")
    case True
    with process_ticket_with_id [OF True, of template] Cons.IH show ?thesis
      by (simp add: case_prod_beta)
  next
    case False
    have "is_error_event missing_id_error" by (simp add: missing_id_error_def)
    with False process_ticket_without_id [OF False, of template] Cons.IH show ?thesis
      by (simp add: case_prod_beta)
  qed
qed

lemma calculate_similarity_events:
  "filter is_error_event (snd (calculate_similarity self tree1 tree2)) = []"
  by (simp add: calculate_similarity_def split: sum.splits)

lemma pair_loop_events: "filter is_error_event (snd (pair_loop self tree1 rest)) = []"
  by (induction rest) (simp_all add: calculate_similarity_events case_prod_beta)

lemma find_implicit_connections_events:
  "filter is_error_event (snd (find_implicit_connections self ts)) = []"
  by (induction ts) (simp_all add: pair_loop_events case_prod_beta)

lemma connection_events:
  "filter is_error_event
     (map (\<lambda>(from_id, to_id, rel_type). LogConnectionExplicit from_id to_id rel_type) explicit) = []"
  "filter is_error_event
     (map (\<lambda>(from_id, to_id, similarity). LogConnectionImplicit from_id to_id similarity) implicit)
   = []"
  by (induction explicit) (auto simp: filter_empty_conv)

lemma build_graph_well_formed:
  assumes "\<forall>ticket \<in> set tickets. well_formed_links ticket"
  shows "\<exists>kg logged. build_graph self tickets template = (Inr kg, logged)
           \<and> trees kg = map rule_based_tree (filter has_id tickets)
           \<and> explicit_connections kg = links_projection tickets
           \<and> filter is_error_event logged
               = map (\<lambda>ticket. missing_id_error) (filter (\<lambda>ticket. \<not> has_id ticket) tickets)"
proof -
  obtain ts logged where pt: "process_tickets template tickets = (ts, logged)"
    by (cases "process_tickets template tickets")
  obtain implicit printed where fi: "find_implicit_connections self ts = (implicit, printed)"
    by (cases "find_implicit_connections self ts")
  from pt process_tickets_trees [of template tickets]
  have ts: "ts = map rule_based_tree (filter has_id tickets)" by simp
  from pt process_tickets_errors [of template tickets]
  have logged: "filter is_error_event logged
                = map (\<lambda>ticket. missing_id_error) (filter (\<lambda>ticket. \<not> has_id ticket) tickets)"
    by simp
  from fi find_implicit_connections_events [of self ts]
  have printed: "filter is_error_event printed = []" by simp
  have explicit: "find_explicit_connections tickets = Inr (links_projection tickets)"
    using assms by (rule find_explicit_connections_well_formed)
  show ?thesis
    by (simp add: build_graph_def pt fi explicit ts [symmetric] logged printed connection_events)
qed


text \<open>
  C9, as amended. On a ticket list whose links can be read, the build returns a graph;
  a ticket without the key \<^verbatim>\<open>id\<close> gets no tree and one \<^verbatim>\<open>log_error\<close> call, with the
  \<^verbatim>\<open>ValueError\<close> of the parser and the ticket id \<^verbatim>\<open>unknown\<close>; every ticket with the key
  gets its tree, in the order of the list, and no \<^verbatim>\<open>log_error\<close> call.
\<close>

theorem build_graph_missing_id_isolated:
  assumes "\<forall>ticket \<in> set tickets. well_formed_links ticket"
  shows "\<exists>kg logged. build_graph self tickets template = (Inr kg, logged)
           \<and> trees kg = map rule_based_tree (filter has_id tickets)
           \<and> filter is_error_event logged
               = map (\<lambda>ticket. LogError ''ticket_processing''
                                 (ValueError ''ticket must have an 'id' field'') (PStr ''unknown''))
                   (filter (\<lambda>ticket. \<not> has_id ticket) tickets)"
  using build_graph_well_formed [OF assms, of self template]
  unfolding missing_id_error_def by blast

theorem build_graph_missing_id_isolated_witness:
  "\<exists>kg logged.
     build_graph
       \<lparr>embedding_model = (\<lambda>text. Inr [1, 0]), similarity_threshold = 1\<rparr>
       [\<lparr>ticket_fields = [''Summary'' \<mapsto> PStr ''no id''], links = None\<rparr>,
        \<lparr>ticket_fields = [''id'' \<mapsto> PStr ''B'', ''Summary'' \<mapsto> PStr ''Login bug''],
         links = None\<rparr>]
       \<lparr>template_sections = None\<rparr>
     = (Inr kg, logged)
     \<and> trees kg
         = [\<lparr>tree_id = ''B'',
             nodes = [\<lparr>node_id = ''B_summary'', node_section = ''Summary'',
                       content = ''Login bug''\<rparr>],
             edges = []\<rparr>]
     \<and> filter is_error_event logged
         = [LogError ''ticket_processing'' (ValueError ''ticket must have an 'id' field'')
              (PStr ''unknown'')]"
proof -
  let ?tickets = "[\<lparr>ticket_fields = [''Summary'' \<mapsto> PStr ''no id''], links = None\<rparr>,
        \<lparr>ticket_fields = [''id'' \<mapsto> PStr ''B'', ''Summary'' \<mapsto> PStr ''Login bug''],
         links = None\<rparr>]"
  have wf: "\<forall>ticket \<in> set ?tickets. well_formed_links ticket"
    by (simp add: well_formed_links_def declared_links_def)
  have ids: "filter has_id ?tickets
             = [\<lparr>ticket_fields = [''id'' \<mapsto> PStr ''B'', ''Summary'' \<mapsto> PStr ''Login bug''],
                 links = None\<rparr>]"
    and no_ids: "filter (\<lambda>ticket. \<not> has_id ticket) ?tickets
             = [\<lparr>ticket_fields = [''Summary'' \<mapsto> PStr ''no id''], links = None\<rparr>]"
    by (simp_all add: has_id_def)
  have tree: "rule_based_tree
                \<lparr>ticket_fields = [''id'' \<mapsto> PStr ''B'', ''Summary'' \<mapsto> PStr ''Login bug''],
                 links = None\<rparr>
              = \<lparr>tree_id = ''B'',
                 nodes = [\<lparr>node_id = ''B_summary'', node_section = ''Summary'',
                           content = ''Login bug''\<rparr>],
                 edges = []\<rparr>"
    by (simp add: rule_based_tree_def parse_ticket_with_rules_def construct_ticket_tree_def
        root_node_def node_edges_def py_get_def py_get_default_def py_or_def)
  from build_graph_missing_id_isolated [OF wf]
  show ?thesis
    unfolding ids no_ids by (simp only: list.map tree)
qed

text \<open>
  A ticket whose \<^verbatim>\<open>id\<close> is the empty string is not refused: the parser tests that the key
  is there, not that its value is non-empty, so the ticket gets a tree and nothing is
  reported.
\<close>

theorem build_graph_empty_id_accepted:
  "build_graph
     \<lparr>embedding_model = (\<lambda>text. Inr [1, 0]), similarity_threshold = 1\<rparr>
     [\<lparr>ticket_fields = [''id'' \<mapsto> PStr [], ''Summary'' \<mapsto> PStr ''Login bug''],
       links = None\<rparr>]
     \<lparr>template_sections = None\<rparr>
   = (Inr \<lparr>trees = [\<lparr>tree_id = [],
                      nodes = [\<lparr>node_id = ''_summary'', node_section = ''Summary'',
                                content = ''Login bug''\<rparr>],
                      edges = []\<rparr>],
           explicit_connections = [],
           implicit_connections = []\<rparr>,
      [LogTicketProcessing [] 1 0])"
  by (simp add: build_graph_def process_ticket_def parse_ticket_with_rules_def
      parse_ticket_with_llm_def construct_ticket_tree_def root_node_def node_edges_def
      py_get_def py_get_default_def py_or_def)

lemma parse_ticket_with_rules_no_content:
  assumes "has_id ticket" and "no_content ticket"
  shows "parse_ticket_with_rules ticket = Inr []"
  using assms
  by (auto simp: parse_ticket_with_rules_def has_id_def no_content_def py_or_def py_get_def
      py_get_default_def split: option.splits)

text \<open>
  C10. A ticket that has an \<^verbatim>\<open>id\<close> and no true value under any of the field names the
  parser reads still gets a tree, at its place among the trees of the graph: the tree with
  the empty identifier, no nodes and no edges, from which the ticket's \<^verbatim>\<open>id\<close> cannot be
  read back. (The template adds no node: the section extractor is a stub.)
\<close>

theorem build_graph_empty_tree:
  assumes "has_id ticket" and "no_content ticket"
    and "\<forall>t \<in> set (before @ ticket # after). well_formed_links t"
  shows "\<exists>kg logged. build_graph self (before @ ticket # after) template = (Inr kg, logged)
           \<and> trees kg
               = map rule_based_tree (filter has_id before)
                 @ [\<lparr>tree_id = [], nodes = [], edges = []\<rparr>]
                 @ map rule_based_tree (filter has_id after)"
proof -
  have "rule_based_tree ticket = \<lparr>tree_id = [], nodes = [], edges = []\<rparr>"
    by (simp add: rule_based_tree_def parse_ticket_with_rules_no_content [OF assms(1,2)]
        construct_ticket_tree_def)
  with build_graph_well_formed [OF assms(3), of self template] assms(1)
  show ?thesis by auto
qed

theorem build_graph_empty_tree_witness:
  "\<exists>kg logged.
     build_graph
       \<lparr>embedding_model = (\<lambda>text. Inr [1, 0]), similarity_threshold = 1\<rparr>
       [\<lparr>ticket_fields = [''id'' \<mapsto> PStr ''A'', ''status'' \<mapsto> PStr ''open''],
         links = None\<rparr>]
       \<lparr>template_sections = Some [[''name'' \<mapsto> PStr ''Environment'']]\<rparr>
     = (Inr kg, logged)
     \<and> trees kg = [\<lparr>tree_id = [], nodes = [], edges = []\<rparr>]"
proof -
  let ?ticket = "\<lparr>ticket_fields = [''id'' \<mapsto> PStr ''A'', ''status'' \<mapsto> PStr ''open''],
                  links = None\<rparr>"
  have "has_id ?ticket" by (simp add: has_id_def)
  moreover have "no_content ?ticket" by (simp add: no_content_def py_get_def)
  moreover have "\<forall>t \<in> set ([] @ ?ticket # []). well_formed_links t"
    by (simp add: well_formed_links_def declared_links_def)
  ultimately show ?thesis
    using build_graph_empty_tree [of ?ticket "[]" "[]"] by simp
qed

end
